theory Spec2Isabelle
  imports Main "HOL-Library.FSet" "HOL-Library.Char_ord"
begin

section \<open>Data model of the archive search (search\_in\_archive.py)\<close>

text \<open>
  Member bytes and member names are strings of 8-bit characters. The source accepts
  its top-level input as \<^verbatim>\<open>Union[str, bytes]\<close>: a filesystem path or the bytes of the
  archive; the bytes of a nested member are always handed on as bytes.
\<close>

type_synonym bytes = string

datatype file_object = Path string | Bytes bytes

text \<open>The archive type tag: the strings \<^verbatim>\<open>'zip'\<close> and \<^verbatim>\<open>'7z'\<close> of the source.\<close>

datatype archive_type = Zip | SevenZ

text \<open>
  Every exception a search can end with. \<open>UnknownArchiveType\<close> is the class the module
  declares; \<open>AttributeError\<close> and \<open>TypeError\<close> are the interpreter's own, raised when
  an attribute is read that the object does not have, or when a list is indexed by a
  string; \<open>RecursionError\<close> is raised when nested containers exceed the depth the
  interpreter allows (the \<open>depth\<close> argument of the traversal below).
\<close>

datatype error = ValueError | UnknownArchiveType | AttributeError | TypeError | RecursionError

text \<open>
  The entries of a listing. \<^verbatim>\<open>zipfile.ZipFile.infolist()\<close> yields \<open>ZipInfo\<close> objects
  (attributes \<open>filename\<close>, \<open>file_size\<close>, \<open>date_time\<close>); \<^verbatim>\<open>py7zr.SevenZipFile.list()\<close>
  yields \<open>FileInfo\<close> objects (attributes \<open>filename\<close>, \<open>uncompressed\<close>, \<open>creationtime\<close>,
  \<open>is_directory\<close>). These are the attributes the source reads on each of them.
\<close>

type_synonym date_time = "nat \<times> nat \<times> nat \<times> nat \<times> nat \<times> nat"
type_synonym creationtime = "int option"

datatype item =
    ZipInfo string nat date_time
  | FileInfo string nat creationtime bool

fun filename :: "item \<Rightarrow> string" where
  "filename (ZipInfo n s d) = n"
| "filename (FileInfo n u c isd) = n"

fun file_size :: "item \<Rightarrow> error + nat" where
  "file_size (ZipInfo n s d) = Inr s"
| "file_size (FileInfo n u c isd) = Inl AttributeError"

fun uncompressed :: "item \<Rightarrow> error + nat" where
  "uncompressed (ZipInfo n s d) = Inl AttributeError"
| "uncompressed (FileInfo n u c isd) = Inr u"

fun is_directory :: "item \<Rightarrow> error + bool" where
  "is_directory (ZipInfo n s d) = Inl AttributeError"
| "is_directory (FileInfo n u c isd) = Inr isd"

text \<open>The value stored under \<^verbatim>\<open>'modified_time'\<close>: a zip date tuple or a 7z creation time.\<close>

datatype modified_time = DateTime date_time | CreationTime creationtime

fun item_date_time :: "item \<Rightarrow> error + modified_time" where
  "item_date_time (ZipInfo n s d) = Inr (DateTime d)"
| "item_date_time (FileInfo n u c isd) = Inl AttributeError"

fun item_creationtime :: "item \<Rightarrow> error + modified_time" where
  "item_creationtime (ZipInfo n s d) = Inl AttributeError"
| "item_creationtime (FileInfo n u c isd) = Inr (CreationTime c)"

text \<open>The dictionary \<^verbatim>\<open>file_info\<close> built for a match: bytes, name, size, modified time.\<close>

record file_info =
  fi_bytes :: bytes
  fi_name :: string
  fi_size :: nat
  fi_modified_time :: modified_time

text \<open>Values a callback may return, with Python's truth test.\<close>

datatype pyval = PyNone | PyBool bool | PyInt int | PyStr string

fun truthy :: "pyval \<Rightarrow> bool" where
  "truthy PyNone = False"
| "truthy (PyBool b) = b"
| "truthy (PyInt i) = (i \<noteq> 0)"
| "truthy (PyStr s) = (s \<noteq> [])"

text \<open>
  A callback: the class of the object it is bound to (if it is a bound method), its
  \<^verbatim>\<open>__name__\<close>, and the function from member bytes to its return value.
\<close>

record callback =
  self_class :: "string option"
  function_name :: string
  call :: "bytes \<Rightarrow> pyval"

definition get_callback_name :: "callback \<Rightarrow> string" where
  "get_callback_name cb =
     (case self_class cb of
        None \<Rightarrow> function_name cb
      | Some class_name \<Rightarrow>
          if class_name \<noteq> [] then class_name @ ''.'' @ function_name cb
          else function_name cb)"

text \<open>
  A value of the \<^verbatim>\<open>results\<close> dictionary: the list of matches of a name search, or the
  dictionary with keys \<^verbatim>\<open>'files'\<close> and \<^verbatim>\<open>'callable_result'\<close> of a callback search.
\<close>

datatype entry = Files "file_info list" | CallbackEntry "file_info list" pyval

text \<open>
  What a traversal does besides updating \<^verbatim>\<open>results\<close> and \<^verbatim>\<open>found_set\<close>: it reads the
  bytes of a member, calls a callback, writes an extracted file. The trace keeps these
  effects in the order they happen.
\<close>

datatype event = Read string | Call string | Write string string bytes

record state =
  results :: "string \<rightharpoonup> entry"
  found_set :: "string fset"
  trace :: "event list"

text \<open>
  The collaborators outside the module: the media-type probe, the two format tests, and
  the two container readers, each giving the ordered listing of an opened container
  together with the bytes that reading each member yields. A container that a format test
  accepts is taken to open and read without error.
\<close>

record env =
  get_mime_type :: "file_object \<Rightarrow> string"
  is_zip_zipfile :: "file_object \<Rightarrow> bool"
  is_7z_magic_number :: "file_object \<Rightarrow> bool"
  ZipFile :: "file_object \<Rightarrow> (item \<times> bytes) list"
  SevenZipFile :: "file_object \<Rightarrow> (item \<times> bytes) list"

text \<open>The arguments every level of the traversal passes on unchanged.\<close>

record query =
  file_names :: "string list option"
  case_sensitive :: bool
  return_first_only :: bool
  recursive :: bool
  callback_functions :: "callback list option"
  extract_file_to_path :: "string option"

definition SUPPORTED_ARCHIVE_MIMES :: "string list" where
  "SUPPORTED_ARCHIVE_MIMES =
     [''application/x-7z-compressed'',
      ''application/zip'',
      ''application/x-dosexec'',
      ''application/octet-stream'',
      ''application/vnd.microsoft.portable-executable'']"

section \<open>The operations\<close>

subsection \<open>Strings\<close>

definition endswith :: "string \<Rightarrow> string \<Rightarrow> bool" where
  "endswith s suffix =
     (length suffix \<le> length s \<and> drop (length s - length suffix) s = suffix)"

definition lower_char :: "char \<Rightarrow> char" where
  "lower_char c =
     (if CHR ''A'' \<le> c \<and> c \<le> CHR ''Z'' then char_of (of_char c + (32::nat)) else c)"

definition lower :: "string \<Rightarrow> string" where
  "lower s = map lower_char s"

definition basename :: "string \<Rightarrow> string" where
  "basename p = rev (takeWhile (\<lambda>c. c \<noteq> CHR ''/'') (rev p))"

subsection \<open>Matching\<close>

definition match_file_name :: "string \<Rightarrow> string \<Rightarrow> bool \<Rightarrow> bool" where
  "match_file_name target current case_sens =
     (if case_sens then endswith current target
      else endswith (lower current) (lower target))"

definition handle_file_extraction :: "item \<Rightarrow> string option \<Rightarrow> bytes \<Rightarrow> state \<Rightarrow> state" where
  "handle_file_extraction it extract_to archived_file_bytes st =
     (case extract_to of
        None \<Rightarrow> st
      | Some dir \<Rightarrow>
          if dir \<noteq> []
          then st\<lparr>trace := trace st @ [Write dir (basename (filename it)) archived_file_bytes]\<rparr>
          else st)"

text \<open>The \<^verbatim>\<open>file_info\<close> of the two branches of the callback handler.\<close>

definition zip_file_info :: "item \<Rightarrow> bytes \<Rightarrow> error + file_info" where
  "zip_file_info it archived_file_bytes =
     (case file_size it of
        Inl e \<Rightarrow> Inl e
      | Inr sz \<Rightarrow>
          (case item_date_time it of
             Inl e \<Rightarrow> Inl e
           | Inr t \<Rightarrow> Inr \<lparr>fi_bytes = archived_file_bytes, fi_name = filename it,
                           fi_size = sz, fi_modified_time = t\<rparr>))"

definition sevenz_file_info :: "item \<Rightarrow> bytes \<Rightarrow> error + file_info" where
  "sevenz_file_info it archived_file_bytes =
     (case uncompressed it of
        Inl e \<Rightarrow> Inl e
      | Inr sz \<Rightarrow>
          (case item_creationtime it of
             Inl e \<Rightarrow> Inl e
           | Inr t \<Rightarrow> Inr \<lparr>fi_bytes = archived_file_bytes, fi_name = filename it,
                           fi_size = sz, fi_modified_time = t\<rparr>))"

definition callback_file_info :: "archive_type \<Rightarrow> item \<Rightarrow> bytes \<Rightarrow> error + file_info" where
  "callback_file_info atype it archived_file_bytes =
     (case atype of
        Zip \<Rightarrow> zip_file_info it archived_file_bytes
      | SevenZ \<Rightarrow> sevenz_file_info it archived_file_bytes)"

text \<open>
  \<^verbatim>\<open>_handle_callback_matching\<close>: the callbacks are called in turn; the first truthy return
  records the member under the callback's name and returns True. Indexing an existing
  list entry with \<^verbatim>\<open>['files']\<close> raises TypeError.
\<close>

fun handle_callback_matching ::
  "item \<Rightarrow> archive_type \<Rightarrow> bytes \<Rightarrow> callback list \<Rightarrow> bool \<Rightarrow> state \<Rightarrow> error + (bool \<times> state)"
where
  "handle_callback_matching it atype archived_file_bytes [] first_only st = Inr (False, st)"
| "handle_callback_matching it atype archived_file_bytes (cb # cbs) first_only st =
     (let callback_result = call cb archived_file_bytes;
          st1 = st\<lparr>trace := trace st @ [Call (get_callback_name cb)]\<rparr>
      in if truthy callback_result then
           (case callback_file_info atype it archived_file_bytes of
              Inl e \<Rightarrow> Inl e
            | Inr info \<Rightarrow>
                (case results st1 (get_callback_name cb) of
                   Some (Files fs) \<Rightarrow> Inl TypeError
                 | existing \<Rightarrow>
                     (let files = (case existing of Some (CallbackEntry fs r) \<Rightarrow> fs | _ \<Rightarrow> []);
                          st2 = st1\<lparr>results := (results st1)
                                  (get_callback_name cb \<mapsto> CallbackEntry (files @ [info]) callback_result)\<rparr>
                      in Inr (True,
                              if first_only
                              then st2\<lparr>found_set := finsert (filename it) (found_set st2)\<rparr>
                              else st2))))
         else handle_callback_matching it atype archived_file_bytes cbs first_only st1)"

text \<open>
  \<^verbatim>\<open>_handle_name_matching\<close>: a member whose name ends with one of the requested names is
  recorded. The \<^verbatim>\<open>file_info\<close> is always built from \<^verbatim>\<open>file_size\<close> and \<^verbatim>\<open>date_time\<close>;
  appending to an existing callback dictionary raises AttributeError.
\<close>

definition handle_name_matching ::
  "item \<Rightarrow> bytes \<Rightarrow> string list \<Rightarrow> bool \<Rightarrow> bool \<Rightarrow> state \<Rightarrow> error + state"
where
  "handle_name_matching it archived_file_bytes names case_sens first_only st =
     (if list_ex (\<lambda>file_name. match_file_name file_name (filename it) case_sens) names then
        (case zip_file_info it archived_file_bytes of
           Inl e \<Rightarrow> Inl e
         | Inr info \<Rightarrow>
             (case results st (filename it) of
                Some (CallbackEntry fs r) \<Rightarrow> Inl AttributeError
              | existing \<Rightarrow>
                  (let files = (case existing of Some (Files fs) \<Rightarrow> fs | _ \<Rightarrow> []);
                       st1 = st\<lparr>results := (results st)(filename it \<mapsto> Files (files @ [info]))\<rparr>
                   in Inr (if first_only
                           then st1\<lparr>found_set := finsert (filename it) (found_set st1)\<rparr>
                           else st1))))
      else Inr st)"

subsection \<open>Format detection\<close>

definition get_archive_type :: "env \<Rightarrow> file_object \<Rightarrow> error + archive_type option" where
  "get_archive_type E file_obj =
     (if get_mime_type E file_obj \<notin> set SUPPORTED_ARCHIVE_MIMES then Inr None
      else if is_zip_zipfile E file_obj then Inr (Some Zip)
      else if is_7z_magic_number E file_obj then Inr (Some SevenZ)
      else Inl UnknownArchiveType)"

subsection \<open>Traversal\<close>

text \<open>The skip test at the head of the loop body, per archive type.\<close>

definition skip_directory :: "archive_type \<Rightarrow> item \<Rightarrow> error + bool" where
  "skip_directory atype it =
     (case atype of
        Zip \<Rightarrow> Inr (endswith (filename it) ''/'')
      | SevenZ \<Rightarrow> is_directory it)"

text \<open>The test before \<^verbatim>\<open>break\<close> at the end of the loop body.\<close>

definition all_found :: "query \<Rightarrow> state \<Rightarrow> bool" where
  "all_found q st =
     (case file_names q of
        None \<Rightarrow> False
      | Some names \<Rightarrow> fcard (found_set st) = length names)"

text \<open>
  \<^verbatim>\<open>_search_in_archive\<close> is the loop over the listing, \<open>process_member\<close> is its body
  for a member that is not skipped (from reading the bytes to just before the test for
  \<^verbatim>\<open>break\<close>), and \<^verbatim>\<open>_search_archive_content\<close> opens a container and runs the loop on
  it. The body calls \<^verbatim>\<open>_search_archive_content\<close> again on the bytes of a nested container;
  \<open>depth\<close> is the number of nested levels the interpreter still allows.
\<close>

fun search_in_archive ::
  "env \<Rightarrow> nat \<Rightarrow> archive_type \<Rightarrow> (item \<times> bytes) list \<Rightarrow> query \<Rightarrow> state \<Rightarrow> error + state"
and process_member ::
  "env \<Rightarrow> nat \<Rightarrow> archive_type \<Rightarrow> item \<Rightarrow> bytes \<Rightarrow> query \<Rightarrow> state \<Rightarrow> error + state"
and search_archive_content ::
  "env \<Rightarrow> nat \<Rightarrow> file_object \<Rightarrow> query \<Rightarrow> state \<Rightarrow> error + state"
where
  "search_in_archive E depth atype [] q st = Inr st"
| "search_in_archive E depth atype ((it, archived_file_bytes) # rest) q st =
     (case skip_directory atype it of
        Inl e \<Rightarrow> Inl e
      | Inr True \<Rightarrow> search_in_archive E depth atype rest q st
      | Inr False \<Rightarrow>
          (case process_member E depth atype it archived_file_bytes q st of
             Inl e \<Rightarrow> Inl e
           | Inr st' \<Rightarrow>
               if all_found q st' then Inr st'
               else search_in_archive E depth atype rest q st'))"
| "process_member E depth atype it archived_file_bytes q st =
     (let st1 = st\<lparr>trace := trace st @ [Read (filename it)]\<rparr> in
      case (case callback_functions q of
              None \<Rightarrow> Inr (False, st1)
            | Some cbs \<Rightarrow>
                if cbs \<noteq> []
                then handle_callback_matching it atype archived_file_bytes cbs
                       (return_first_only q) st1
                else Inr (False, st1)) of
        Inl e \<Rightarrow> Inl e
      | Inr (callback_matched, st2) \<Rightarrow>
          if callback_matched
          then Inr (handle_file_extraction it (extract_file_to_path q) archived_file_bytes st2)
          else
            (case (if recursive q \<and> (is_zip_zipfile E (Bytes archived_file_bytes)
                         \<or> is_7z_magic_number E (Bytes archived_file_bytes))
                   then (case depth of
                           0 \<Rightarrow> Inl RecursionError
                         | Suc d \<Rightarrow> search_archive_content E d (Bytes archived_file_bytes) q st2)
                   else Inr st2) of
               Inl e \<Rightarrow> Inl e
             | Inr st3 \<Rightarrow>
                 (case file_names q of
                    None \<Rightarrow> Inr st3
                  | Some names \<Rightarrow>
                      if names \<noteq> []
                      then handle_name_matching it archived_file_bytes names
                             (case_sensitive q) (return_first_only q) st3
                      else Inr st3)))"
| "search_archive_content E depth file_obj q st =
     (case get_archive_type E file_obj of
        Inl e \<Rightarrow> Inl e
      | Inr None \<Rightarrow> Inr st
      | Inr (Some Zip) \<Rightarrow> search_in_archive E depth Zip (ZipFile E file_obj) q st
      | Inr (Some SevenZ) \<Rightarrow> search_in_archive E depth SevenZ (SevenZipFile E file_obj) q st)"

subsection \<open>The entry point\<close>

fun entry_truthy :: "entry \<Rightarrow> bool" where
  "entry_truthy (Files fs) = (fs \<noteq> [])"
| "entry_truthy (CallbackEntry fs r) = True"

definition filter_empty :: "(string \<rightharpoonup> entry) \<Rightarrow> (string \<rightharpoonup> entry)" where
  "filter_empty res =
     (\<lambda>key. case res key of
              None \<Rightarrow> None
            | Some v \<Rightarrow> if entry_truthy v then Some v else None)"

definition initial_state :: state where
  "initial_state = \<lparr>results = Map.empty, found_set = {||}, trace = []\<rparr>"

definition search_file_in_archive ::
  "env \<Rightarrow> nat \<Rightarrow> file_object \<Rightarrow> string list option \<Rightarrow> bool \<Rightarrow> bool \<Rightarrow> bool \<Rightarrow> bool \<Rightarrow>
   callback list option \<Rightarrow> string option \<Rightarrow> error + (string \<rightharpoonup> entry)"
where
  "search_file_in_archive E depth file_obj file_names_to_search case_sens first_only
       return_empty_list_per_file_name recurse callbacks extract_to =
     (if file_names_to_search = None \<and> callbacks = None then Inl ValueError
      else
        (case search_archive_content E depth file_obj
                \<lparr>file_names = file_names_to_search, case_sensitive = case_sens,
                 return_first_only = first_only, recursive = recurse,
                 callback_functions = callbacks, extract_file_to_path = extract_to\<rparr>
                initial_state of
           Inl e \<Rightarrow> Inl e
         | Inr st \<Rightarrow>
             Inr (if \<not> return_empty_list_per_file_name then filter_empty (results st)
                  else results st)))"

section \<open>Sample containers\<close>

text \<open>
  A small world of sources for the concrete runs below, each identified by its bytes:
  three zip containers, one 7z container, a text file, and a file that the media-type
  probe takes for binary data but that is no container.
\<close>

definition zip_member :: "string \<Rightarrow> bytes \<Rightarrow> item \<times> bytes" where
  "zip_member n b = (ZipInfo n (length b) (2024, 1, 1, 0, 0, 0), b)"

definition sample_env :: env where
  "sample_env =
     \<lparr>get_mime_type = (\<lambda>f. if f = Bytes ''notes'' then ''text/plain''
                            else if f = Bytes ''junk'' then ''application/octet-stream''
                            else if f = Bytes ''7z-one'' then ''application/x-7z-compressed''
                            else ''application/zip''),
      is_zip_zipfile = (\<lambda>f. f \<in> set [Bytes ''PK-abc'', Bytes ''PK-dup'', Bytes ''PK-deep'']),
      is_7z_magic_number = (\<lambda>f. f = Bytes ''7z-one''),
      ZipFile = (\<lambda>f. if f = Bytes ''PK-abc''
                         then [zip_member ''a.txt'' ''1'', zip_member ''b.txt'' ''2'',
                               zip_member ''c.txt'' ''3'']
                       else if f = Bytes ''PK-dup''
                         then [zip_member ''x/a.txt'' ''1'', zip_member ''y/a.txt'' ''2'',
                               zip_member ''b.txt'' ''3'']
                       else if f = Bytes ''PK-deep''
                         then [zip_member ''a/b/file.txt'' ''1'']
                       else []),
      SevenZipFile = (\<lambda>f. if f = Bytes ''7z-one''
                              then [(FileInfo ''a.txt'' 1 None False, ''1'')]
                            else [])\<rparr>"

definition always :: callback where
  "always = \<lparr>self_class = None, function_name = ''always'', call = (\<lambda>b. PyBool True)\<rparr>"

definition never :: callback where
  "never = \<lparr>self_class = None, function_name = ''never'', call = (\<lambda>b. PyNone)\<rparr>"

definition size_of :: callback where
  "size_of = \<lparr>self_class = Some ''Probe'', function_name = ''size_of'',
              call = (\<lambda>b. PyInt (int (length b)))\<rparr>"

section \<open>Auxiliary facts\<close>

declare search_archive_content.simps [simp del]

lemma filter_empty_empty: "filter_empty Map.empty = Map.empty"
  by (simp add: filter_empty_def)

lemma filter_empty_upd:
  "entry_truthy v \<Longrightarrow> filter_empty (m(k \<mapsto> v)) = (filter_empty m)(k \<mapsto> v)"
  by (auto simp: filter_empty_def fun_eq_iff)

text \<open>The equations that run the model on the sample containers.\<close>

lemmas sample_defs =
  sample_env_def zip_member_def always_def never_def size_of_def get_callback_name_def
  search_file_in_archive_def initial_state_def filter_empty_empty filter_empty_upd
  search_archive_content.simps
  get_archive_type_def SUPPORTED_ARCHIVE_MIMES_def skip_directory_def all_found_def
  handle_name_matching_def handle_file_extraction_def callback_file_info_def
  zip_file_info_def sevenz_file_info_def match_file_name_def endswith_def basename_def
  fcard_finsert_if fcard_fempty Let_def

subsection \<open>Which exceptions the handlers and the traversal can raise\<close>

lemma callback_file_info_error:
  "callback_file_info atype it b = Inl e \<Longrightarrow> e = AttributeError"
  by (cases it; cases atype)
     (auto simp: callback_file_info_def zip_file_info_def sevenz_file_info_def)

lemma zip_file_info_error: "zip_file_info it b = Inl e \<Longrightarrow> e = AttributeError"
  by (cases it) (auto simp: zip_file_info_def)

lemma handle_callback_matching_error:
  "handle_callback_matching it atype b cbs fo st = Inl e \<Longrightarrow> e = AttributeError \<or> e = TypeError"
proof (induction cbs arbitrary: st)
  case Nil
  then show ?case by simp
next
  case (Cons cb cbs)
  then show ?case
    by (auto simp: Let_def split: if_splits sum.splits option.splits entry.splits
             dest: callback_file_info_error)
qed

lemma handle_name_matching_error:
  "handle_name_matching it b names cs fo st = Inl e \<Longrightarrow> e = AttributeError"
  by (auto simp: handle_name_matching_def Let_def
           split: if_splits sum.splits option.splits entry.splits dest: zip_file_info_error)

lemma skip_directory_error: "skip_directory atype it = Inl e \<Longrightarrow> e = AttributeError"
  by (cases it; cases atype) (auto simp: skip_directory_def)

lemma traversal_never_ValueError:
  "search_in_archive E depth atype ms q st \<noteq> Inl ValueError"
  "process_member E depth atype it b q st \<noteq> Inl ValueError"
  "search_archive_content E depth fobj q st \<noteq> Inl ValueError"
proof (induction E depth atype ms q st and E depth atype it b q st and E depth fobj q st
       rule: search_in_archive_process_member_search_archive_content.induct)
  case (1 E depth atype q st)
  then show ?case by simp
next
  case (2 E depth atype it archived_file_bytes rest q st)
  then show ?case
    by (auto split: sum.splits bool.splits dest: skip_directory_error)
next
  case (3 E depth atype it archived_file_bytes q st)
  then show ?case
    by (auto simp: Let_def split: sum.splits option.splits if_splits prod.splits nat.splits
             dest: handle_callback_matching_error handle_name_matching_error)
next
  case (4 E depth file_obj q st)
  then show ?case
    by (auto simp: search_archive_content.simps get_archive_type_def
             split: sum.splits option.splits archive_type.splits if_splits)
qed

section \<open>The name matcher is a suffix test\<close>







section \<open>The configuration check\<close>

text \<open>
  Both criteria supplied as empty lists pass the check of the entry point: the search of
  the sample zip container goes ahead and returns an empty result.
\<close>

theorem empty_lists_pass_configuration_check:
  "search_file_in_archive sample_env 8 (Bytes ''PK-abc'') (Some []) True False False False
      (Some []) None = Inr Map.empty"
  by (simp add: sample_defs)

text \<open>
  Claim C6, amended. A call to search ends with the configuration error (ValueError)
  exactly when both the name list and the predicate list are absent (None); the error is
  the result whatever the source and the collaborators are, so nothing has been opened or
  read. If at least one of the two is supplied, even as an empty list, no configuration
  error is raised.
\<close>

theorem configuration_error_iff_both_absent:
  "search_file_in_archive E depth fobj names cs fo ie rc cbs ex = Inl ValueError
     \<longleftrightarrow> names = None \<and> cbs = None"
proof -
  let ?q = "\<lparr>file_names = names, case_sensitive = cs, return_first_only = fo, recursive = rc,
             callback_functions = cbs, extract_file_to_path = ex\<rparr>"
  have "search_archive_content E depth fobj ?q initial_state \<noteq> Inl ValueError"
    by (rule traversal_never_ValueError(3))
  then show ?thesis
    by (auto simp: search_file_in_archive_def split: sum.splits)
qed

section \<open>Sources that are no container\<close>

text \<open>
  The sample text file matches neither signature, and its media type is not one of the
  supported ones: the search returns an empty result and raises nothing.
\<close>

theorem unsupported_mime_returns_empty:
  "\<not> is_zip_zipfile sample_env (Bytes ''notes'') \<and>
   \<not> is_7z_magic_number sample_env (Bytes ''notes'') \<and>
   search_file_in_archive sample_env 8 (Bytes ''notes'') (Some [''a.txt'']) True False False
      False None None = Inr Map.empty"
  by (simp add: sample_defs)

text \<open>
  Claim C1, amended. For every top-level source whose bytes match neither the zip nor the
  7z signature, a search with criteria supplied raises UnknownArchiveType when the media
  type of the source is one of the supported archive media types; when the media type is
  not in that list, the search completes and returns an empty ResultSet.
\<close>

theorem unknown_source_outcome:
  assumes "\<not> is_zip_zipfile E fobj" and "\<not> is_7z_magic_number E fobj"
    and "names \<noteq> None \<or> cbs \<noteq> None"
  shows "search_file_in_archive E depth fobj names cs fo ie rc cbs ex =
           (if get_mime_type E fobj \<in> set SUPPORTED_ARCHIVE_MIMES
            then Inl UnknownArchiveType else Inr Map.empty)"
  using assms
  by (auto simp: search_file_in_archive_def search_archive_content.simps get_archive_type_def
        initial_state_def filter_empty_empty)

theorem unknown_source_outcome_witness:
  "\<not> is_zip_zipfile sample_env (Bytes ''junk'') \<and>
   \<not> is_7z_magic_number sample_env (Bytes ''junk'') \<and>
   search_file_in_archive sample_env 8 (Bytes ''junk'') (Some [''a.txt'']) True False False
      False None None = Inl UnknownArchiveType"
proof -
  have z: "\<not> is_zip_zipfile sample_env (Bytes ''junk'')"
    and s: "\<not> is_7z_magic_number sample_env (Bytes ''junk'')"
    by (simp_all add: sample_env_def)
  have c: "Some [''a.txt''] \<noteq> None \<or> (None :: callback list option) \<noteq> None" by simp
  have m: "get_mime_type sample_env (Bytes ''junk'') \<in> set SUPPORTED_ARCHIVE_MIMES"
    by (simp add: sample_env_def SUPPORTED_ARCHIVE_MIMES_def)
  show ?thesis
    using z s m unknown_source_outcome [OF z s c, of 8 True False False False None]
    by simp
qed

section \<open>Name matches in a 7z container\<close>

lemma sevenz_callback_match_records:
  "search_file_in_archive sample_env 8 (Bytes ''7z-one'') None True False False False
      (Some [always]) None
     = Inr [''always'' \<mapsto> CallbackEntry [\<lparr>fi_bytes = ''1'', fi_name = ''a.txt'', fi_size = 1,
                fi_modified_time = CreationTime None\<rparr>] (PyBool True)]"
  by (simp add: sample_defs)

text \<open>
  Claim C5. A non-directory member of a 7z container whose name matches a requested name
  should be recorded, as the member of a zip container is. On the code the name handler
  reads \<open>file_size\<close> and \<open>date_time\<close>, which the entries of a 7z listing do not have: the
  search of the sample 7z container for its only member \<open>a.txt\<close> ends with AttributeError.
  (The callback handler reads \<open>uncompressed\<close> and \<open>creationtime\<close> for a 7z container and
  records the same member, see \<open>sevenz_callback_match_records\<close>.)
\<close>

theorem sevenz_name_match_raises:
  "search_file_in_archive sample_env 8 (Bytes ''7z-one'') (Some [''a.txt'']) True False False
      False None None = Inl AttributeError"
  by (simp add: sample_defs)

section \<open>Names that are not found\<close>

text \<open>
  Claim C7. With zero matching members the result should have every requested name as a
  key of an empty list when empty lists are asked for, and no key otherwise. On the code
  the result has no key in both cases: the search of the sample zip container for
  \<open>missing.txt\<close> with \<open>return_empty_list_per_file_name\<close> set returns the empty
  dictionary.
\<close>

theorem no_empty_list_for_unfound_name:
  "search_file_in_archive sample_env 8 (Bytes ''PK-abc'') (Some [''missing.txt'']) True False
      True False None None = Inr Map.empty"
  by (simp add: sample_defs)

section \<open>First match only\<close>

text \<open>
  Claim C3. With first-only set, each requested name should end with exactly one record.
  On the code the found-set holds member names, and the loop stops when it holds as many
  of them as there are requested names: in the sample container with members
  \<open>x/a.txt\<close>, \<open>y/a.txt\<close>, \<open>b.txt\<close>, the first-only search for \<open>a.txt\<close> and \<open>b.txt\<close>
  records both members ending with \<open>a.txt\<close> and stops before \<open>b.txt\<close>.
\<close>

theorem first_only_two_names:
  "search_file_in_archive sample_env 8 (Bytes ''PK-dup'') (Some [''a.txt'', ''b.txt'']) True
      True False False None None
   = Inr [''x/a.txt'' \<mapsto> Files [\<lparr>fi_bytes = ''1'', fi_name = ''x/a.txt'', fi_size = 1,
                                   fi_modified_time = DateTime (2024, 1, 1, 0, 0, 0)\<rparr>],
          ''y/a.txt'' \<mapsto> Files [\<lparr>fi_bytes = ''2'', fi_name = ''y/a.txt'', fi_size = 1,
                                   fi_modified_time = DateTime (2024, 1, 1, 0, 0, 0)\<rparr>]]"
  by (simp add: sample_defs)

section \<open>Invariants of the traversal\<close>

text \<open>
  A property of the state that survives a change of the trace, a successful run of the
  callback handler and a successful run of the name handler survives every successful
  traversal, whatever the nesting. The proof goes by induction on the depth; inside one
  depth the loop is an induction on the listing.
\<close>

lemma handle_file_extraction_trace:
  "\<exists>evs. handle_file_extraction it ex b st = st\<lparr>trace := evs\<rparr>"
  by (cases ex) (auto simp: handle_file_extraction_def intro: exI[of _ "trace st"])

lemma process_member_preserves:
  fixes P :: "state \<Rightarrow> bool"
  assumes tr: "\<And>st evs. P st \<Longrightarrow> P (st\<lparr>trace := evs\<rparr>)"
    and cb: "\<And>it atype b cbs st m st'. P st \<Longrightarrow> callback_functions q = Some cbs \<Longrightarrow>
               handle_callback_matching it atype b cbs (return_first_only q) st = Inr (m, st')
               \<Longrightarrow> P st'"
    and nm: "\<And>it b names st st'. P st \<Longrightarrow> file_names q = Some names \<Longrightarrow>
               handle_name_matching it b names (case_sensitive q) (return_first_only q) st = Inr st'
               \<Longrightarrow> P st'"
    and nested: "\<And>d fobj st st'. depth = Suc d \<Longrightarrow> P st \<Longrightarrow>
               search_archive_content E d fobj q st = Inr st' \<Longrightarrow> P st'"
    and start: "P st"
    and run: "process_member E depth atype it b q st = Inr st'"
  shows "P st'"
proof -
  let ?st1 = "st\<lparr>trace := trace st @ [Read (filename it)]\<rparr>"
  define r where "r = (case callback_functions q of
              None \<Rightarrow> Inr (False, ?st1)
            | Some cbs \<Rightarrow>
                if cbs \<noteq> []
                then handle_callback_matching it atype b cbs (return_first_only q) ?st1
                else Inr (False, ?st1))"
  define r2 where "r2 = (\<lambda>st2. if recursive q \<and> (is_zip_zipfile E (Bytes b) \<or> is_7z_magic_number E (Bytes b))
                   then (case depth of
                           0 \<Rightarrow> Inl RecursionError
                         | Suc d \<Rightarrow> search_archive_content E d (Bytes b) q st2)
                   else Inr st2)"
  define r3 where "r3 = (\<lambda>st3. case file_names q of
                    None \<Rightarrow> Inr st3
                  | Some names \<Rightarrow>
                      if names \<noteq> []
                      then handle_name_matching it b names (case_sensitive q) (return_first_only q) st3
                      else Inr st3)"
  have unfold: "process_member E depth atype it b q st =
     (case r of Inl e \<Rightarrow> Inl e
      | Inr (m, st2) \<Rightarrow>
          if m then Inr (handle_file_extraction it (extract_file_to_path q) b st2)
          else (case r2 st2 of Inl e \<Rightarrow> Inl e | Inr st3 \<Rightarrow> r3 st3))"
    unfolding r_def r2_def r3_def process_member.simps Let_def by (rule refl)
  have P1: "P ?st1" using start by (rule tr)
  from run unfold obtain m st2 where r: "r = Inr (m, st2)"
    by (cases r) auto
  have P2: "P st2"
  proof (cases "callback_functions q")
    case None
    with r show ?thesis using P1 by (simp add: r_def)
  next
    case (Some cbs)
    show ?thesis
    proof (cases "cbs = []")
      case True
      with Some r show ?thesis using P1 by (simp add: r_def)
    next
      case False
      with Some r have "handle_callback_matching it atype b cbs (return_first_only q) ?st1 = Inr (m, st2)"
        by (simp add: r_def)
      with P1 Some show ?thesis by (rule cb)
    qed
  qed
  show ?thesis
  proof (cases m)
    case True
    with run unfold r have "st' = handle_file_extraction it (extract_file_to_path q) b st2"
      by simp
    then show ?thesis
      using handle_file_extraction_trace[of it "extract_file_to_path q" b st2] tr[OF P2]
      by auto
  next
    case False
    with run unfold r obtain st3 where r2: "r2 st2 = Inr st3" and r3: "r3 st3 = Inr st'"
      by (cases "r2 st2") auto
    have P3: "P st3"
    proof (cases "recursive q \<and> (is_zip_zipfile E (Bytes b) \<or> is_7z_magic_number E (Bytes b))")
      case True
      with r2 obtain d where "depth = Suc d"
        and "search_archive_content E d (Bytes b) q st2 = Inr st3"
        by (cases depth) (auto simp: r2_def)
      then show ?thesis using P2 nested by blast
    next
      case False
      with r2 have "st3 = st2" by (auto simp: r2_def)
      with P2 show ?thesis by simp
    qed
    show ?thesis
    proof (cases "file_names q")
      case None
      with r3 P3 show ?thesis by (simp add: r3_def)
    next
      case (Some names)
      show ?thesis
      proof (cases "names = []")
        case True
        with Some r3 P3 show ?thesis by (simp add: r3_def)
      next
        case False
        with Some r3
        have "handle_name_matching it b names (case_sensitive q) (return_first_only q) st3 = Inr st'"
          by (simp add: r3_def)
        with P3 Some show ?thesis by (rule nm)
      qed
    qed
  qed
qed

lemma search_in_archive_preserves:
  fixes P :: "state \<Rightarrow> bool"
  assumes member: "\<And>it b st st'. P st \<Longrightarrow> process_member E depth atype it b q st = Inr st' \<Longrightarrow> P st'"
  shows "P st \<Longrightarrow> search_in_archive E depth atype ms q st = Inr st' \<Longrightarrow> P st'"
proof (induction ms arbitrary: st)
  case Nil
  then show ?case by simp
next
  case (Cons m ms)
  obtain it b where m: "m = (it, b)" by (cases m)
  from Cons.prems show ?case
    unfolding m
    by (auto split: sum.splits bool.splits if_splits dest: member intro: Cons.IH)
qed

lemma search_archive_content_preserves:
  fixes P :: "state \<Rightarrow> bool"
  assumes tr: "\<And>st evs. P st \<Longrightarrow> P (st\<lparr>trace := evs\<rparr>)"
    and cb: "\<And>it atype b cbs st m st'. P st \<Longrightarrow> callback_functions q = Some cbs \<Longrightarrow>
               handle_callback_matching it atype b cbs (return_first_only q) st = Inr (m, st')
               \<Longrightarrow> P st'"
    and nm: "\<And>it b names st st'. P st \<Longrightarrow> file_names q = Some names \<Longrightarrow>
               handle_name_matching it b names (case_sensitive q) (return_first_only q) st = Inr st'
               \<Longrightarrow> P st'"
  shows "P st \<Longrightarrow> search_archive_content E depth fobj q st = Inr st' \<Longrightarrow> P st'"
proof (induction depth arbitrary: fobj st st')
  case 0
  have pm: "\<And>atype it b st st'. P st \<Longrightarrow> process_member E 0 atype it b q st = Inr st' \<Longrightarrow> P st'"
    by (rule process_member_preserves[where P = P, OF tr cb nm]) auto
  have sa: "P st'" if "P st" and "search_in_archive E 0 atype ms q st = Inr st'"
    for atype ms st st'
  proof (rule search_in_archive_preserves[where P = P])
    show "P st" by (rule that(1))
    show "search_in_archive E 0 atype ms q st = Inr st'" by (rule that(2))
    show "\<And>it b st st'. P st \<Longrightarrow> process_member E 0 atype it b q st = Inr st' \<Longrightarrow> P st'"
      by (rule pm)
  qed
  from "0.prems" show ?case
    by (auto simp: search_archive_content.simps
             split: sum.splits option.splits archive_type.splits intro: sa)
next
  case (Suc d)
  have pm: "\<And>atype it b st st'. P st \<Longrightarrow> process_member E (Suc d) atype it b q st = Inr st' \<Longrightarrow> P st'"
    by (rule process_member_preserves[where P = P, OF tr cb nm]) (auto dest: Suc.IH)
  have sa: "P st'" if "P st" and "search_in_archive E (Suc d) atype ms q st = Inr st'"
    for atype ms st st'
  proof (rule search_in_archive_preserves[where P = P])
    show "P st" by (rule that(1))
    show "search_in_archive E (Suc d) atype ms q st = Inr st'" by (rule that(2))
    show "\<And>it b st st'. P st \<Longrightarrow> process_member E (Suc d) atype it b q st = Inr st' \<Longrightarrow> P st'"
      by (rule pm)
  qed
  from Suc.prems show ?case
    by (auto simp: search_archive_content.simps
             split: sum.splits option.splits archive_type.splits intro: sa)
qed


lemma traversal_preserves:
  fixes P :: "state \<Rightarrow> bool"
  assumes tr: "\<And>st evs. P st \<Longrightarrow> P (st\<lparr>trace := evs\<rparr>)"
    and cb: "\<And>it atype b cbs st m st'. P st \<Longrightarrow> callback_functions q = Some cbs \<Longrightarrow>
               handle_callback_matching it atype b cbs (return_first_only q) st = Inr (m, st')
               \<Longrightarrow> P st'"
    and nm: "\<And>it b names st st'. P st \<Longrightarrow> file_names q = Some names \<Longrightarrow>
               handle_name_matching it b names (case_sensitive q) (return_first_only q) st = Inr st'
               \<Longrightarrow> P st'"
  shows process_member_invariant:
      "P st \<Longrightarrow> process_member E depth atype it b q st = Inr st' \<Longrightarrow> P st'"
    and search_in_archive_invariant:
      "P st \<Longrightarrow> search_in_archive E depth atype ms q st = Inr st' \<Longrightarrow> P st'"
proof -
  have content: "P s \<Longrightarrow> search_archive_content E d fobj q s = Inr s' \<Longrightarrow> P s'" for d fobj s s'
    by (rule search_archive_content_preserves[where P = P, OF tr cb nm])
  have pm: "P s \<Longrightarrow> process_member E depth a i c q s = Inr s' \<Longrightarrow> P s'" for a i c s s'
    by (rule process_member_preserves[where P = P, OF tr cb nm]) (auto dest: content)
  show "P st \<Longrightarrow> process_member E depth atype it b q st = Inr st' \<Longrightarrow> P st'"
    by (rule pm)
  show "P st \<Longrightarrow> search_in_archive E depth atype ms q st = Inr st' \<Longrightarrow> P st'"
  proof (rule search_in_archive_preserves[where P = P])
    assume "P st" then show "P st" .
    assume "search_in_archive E depth atype ms q st = Inr st'"
    then show "search_in_archive E depth atype ms q st = Inr st'" .
    show "\<And>it b st st'. P st \<Longrightarrow> process_member E depth atype it b q st = Inr st' \<Longrightarrow> P st'"
      by (rule pm)
  qed
qed

section \<open>Callbacks are tried in order\<close>





section \<open>Name matches are keyed by the member's name\<close>










section \<open>Early exit of the loop\<close>





section \<open>An empty list of names\<close>








end
